theory Spec2Isabelle
  imports Main "HOL-Library.Word" "HOL-Library.Signed_Division"
begin

section \<open>Tickless OS support of the STM32 port (arch/arm/src/stm32/stm32_tickless.c)\<close>

text \<open>
  The file wires two timer drivers together: a one-shot timer for the interval events and
  a free-running timer for the current time.  The four functions of the tickless interface
  (\<open>up_timer_initialize\<close>, \<open>up_timer_gettime\<close>, \<open>up_timer_cancel\<close>,
  \<open>up_timer_start\<close>) and the expiry callback \<open>stm32_oneshot_handler\<close> are embedded
  below.  The drivers themselves (\<open>stm32_oneshot.c\<close>, \<open>stm32_freerun.c\<close>), the
  high-resolution timer \<open>hrt_*\<close> and the kernel are other files; the embedding takes
  them as a \<open>platform\<close>, a record of functions, so that every theorem about the file holds
  for every driver.
\<close>

subsection \<open>Data\<close>

text \<open>
  \<open>struct timespec\<close>.  The types \<open>time_t\<close> and \<open>long\<close> of its fields are declared
  in headers outside the file; the fields are kept as integers, and the one conversion
  to \<open>uint64_t\<close> that the file performs is \<open>timespec_usec\<close> below.
\<close>

record timespec =
  tv_sec :: int
  tv_nsec :: int

text \<open>
  The expression \<open>ts.tv_nsec/1000 + (ts.tv_sec * 1000000)\<close> assigned to a
  \<open>uint64_t\<close>, as the sweep of \<open>up_timer_initialize\<close> computes it twice.  On the
  32-bit ARM target \<open>long\<close> and \<open>time_t\<close> are 32 bits wide: the division
  truncates, the product and the sum are formed in 32 bits and wrap at \<open>2\<^sup>3\<^sup>2\<close>,
  and only the result is widened to 64 bits.
\<close>

definition timespec_usec :: "timespec \<Rightarrow> 64 word" where
  "timespec_usec ts =
     ucast ((word_of_int (tv_nsec ts sdiv 1000) + word_of_int (tv_sec ts) * 1000000) :: 32 word)"

text \<open>
  A pointer to a callback.  The file defines one callback, \<open>stm32_oneshot_handler\<close>,
  and registers no other.
\<close>

datatype fnptr = Stm32_oneshot_handler

text \<open>
  \<open>struct stm32_tickless_s\<close>.  The two members are the driver objects; their types
  (\<open>struct stm32_oneshot_s\<close>, \<open>struct stm32_freerun_s\<close>) belong to the drivers and
  are type parameters here.  A driver object stands for the structure together with the
  timer peripheral it owns: the preprocessor checks of the file reject a configuration in
  which both drivers are given the same timer.
\<close>

record ('o, 'f) stm32_tickless_s =
  oneshot :: 'o
  freerun :: 'f

text \<open>
  What the file does to the outside is recorded as a trace of events, oldest first: the
  calls into the drivers, the upcall into the scheduler, the debug output, the probe pins
  and \<open>PANIC\<close>.
\<close>

datatype event =
    Call_oneshot_initialize int int
  | Call_freerun_initialize int int
  | Call_freerun_counter
  | Call_oneshot_cancel bool
  | Call_oneshot_start fnptr "nat option" timespec
  | Call_sched_timer_expiration
  | Dbg string
  | Probe nat bool
  | Panic

text \<open>
  The state the file works on: the global \<open>g_tickless\<close>, the file-static counter
  \<open>test_cnt\<close> (a \<open>volatile int\<close>; only incremented and compared for equality, kept
  as a 32-bit word whose increment wraps), the state \<open>world\<close> of the high-resolution timer
  and the trace.
\<close>

record ('o, 'f, 'e) machine =
  g_tickless :: "('o, 'f) stm32_tickless_s"
  test_cnt :: "32 word"
  world :: 'e
  trace :: "event list"

text \<open>
  The platform: the configuration constants the file reads and the functions it calls.
  A driver function takes the driver object it is given a pointer to and returns the
  updated object beside its \<open>int\<close> result.  An out-parameter \<open>ts\<close> is returned as a
  value, the content of \<open>*ts\<close> after the call; \<open>stm32_oneshot_cancel\<close> is told
  whether \<open>ts\<close> is non-NULL.  \<open>oneshot_interrupt\<close> is the one-shot driver's interrupt
  service: it says which registered callback it calls, with which argument, if any.
\<close>

record ('o, 'f, 'e) platform =
  CONFIG_DEBUG :: bool
  CONFIG_DEBUG_TIMER :: bool
  CONFIG_DEBUG_VERBOSE :: bool
  CONFIG_STM32_TICKLESS_ONESHOT :: int
  CONFIG_STM32_TICKLESS_FREERUN :: int
  CONFIG_USEC_PER_TICK :: int
  stm32_oneshot_initialize :: "'o \<Rightarrow> int \<Rightarrow> int \<Rightarrow> int \<times> 'o"
  stm32_freerun_initialize :: "'f \<Rightarrow> int \<Rightarrow> int \<Rightarrow> int \<times> 'f"
  stm32_freerun_counter :: "'f \<Rightarrow> int \<times> timespec \<times> 'f"
  stm32_oneshot_cancel :: "'o \<Rightarrow> bool \<Rightarrow> int \<times> timespec \<times> 'o"
  stm32_oneshot_start :: "'o \<Rightarrow> fnptr \<Rightarrow> nat option \<Rightarrow> timespec \<Rightarrow> int \<times> 'o"
  oneshot_interrupt :: "'o \<Rightarrow> (fnptr \<times> nat option) option \<times> 'o"
  hrt_init :: "'e \<Rightarrow> 'e"
  hrt_absolute_time :: "'e \<Rightarrow> 64 word \<times> 'e"

text \<open>How a call of \<open>up_timer_initialize\<close> ends: it returns, or \<open>PANIC\<close> stops the system.\<close>

datatype 'm outcome = Returned 'm | Halted 'm

subsection \<open>Small steps shared by the functions\<close>

definition emit :: "event \<Rightarrow> ('o, 'f, 'e) machine \<Rightarrow> ('o, 'f, 'e) machine" where
  "emit e m = m\<lparr>trace := trace m @ [e]\<rparr>"

definition set_oneshot :: "'o \<Rightarrow> ('o, 'f, 'e) machine \<Rightarrow> ('o, 'f, 'e) machine" where
  "set_oneshot x m = m\<lparr>g_tickless := (g_tickless m)\<lparr>oneshot := x\<rparr>\<rparr>"

definition set_freerun :: "'f \<Rightarrow> ('o, 'f, 'e) machine \<Rightarrow> ('o, 'f, 'e) machine" where
  "set_freerun x m = m\<lparr>g_tickless := (g_tickless m)\<lparr>freerun := x\<rparr>\<rparr>"

text \<open>
  The debug macros: \<open>CONFIG_DEBUG_TIMER\<close> is undefined unless \<open>CONFIG_DEBUG\<close> is set;
  \<open>tclldbg\<close> prints when it is defined, \<open>tcllvdbg\<close> only with \<open>CONFIG_DEBUG_VERBOSE\<close>
  as well; otherwise both expand to nothing.
\<close>

definition tclldbg ::
  "('o, 'f, 'e) platform \<Rightarrow> string \<Rightarrow> ('o, 'f, 'e) machine \<Rightarrow> ('o, 'f, 'e) machine" where
  "tclldbg P msg m =
     (if CONFIG_DEBUG P \<and> CONFIG_DEBUG_TIMER P then emit (Dbg msg) m else m)"

definition tcllvdbg ::
  "('o, 'f, 'e) platform \<Rightarrow> string \<Rightarrow> ('o, 'f, 'e) machine \<Rightarrow> ('o, 'f, 'e) machine" where
  "tcllvdbg P msg m =
     (if CONFIG_DEBUG P \<and> CONFIG_DEBUG_TIMER P \<and> CONFIG_DEBUG_VERBOSE P
      then emit (Dbg msg) m else m)"

text \<open>
  Modelled from the spec: the macro \<open>PANIC()\<close> is defined outside the file.  Section
  4.1: a failed initialization "must halt the system rather than return an error".  The
  call is recorded; the caller wraps the state in \<open>Halted\<close>.
\<close>

definition PANIC :: "('o, 'f, 'e) machine \<Rightarrow> ('o, 'f, 'e) machine" where
  "PANIC m = emit Panic m"

text \<open>The macro \<open>PROBE(n, level)\<close> of the board header drives a test pin.\<close>

definition PROBE :: "nat \<Rightarrow> bool \<Rightarrow> ('o, 'f, 'e) machine \<Rightarrow> ('o, 'f, 'e) machine" where
  "PROBE n b m = emit (Probe n b) m"

definition hrt_now ::
  "('o, 'f, 'e) platform \<Rightarrow> ('o, 'f, 'e) machine \<Rightarrow> 64 word \<times> ('o, 'f, 'e) machine" where
  "hrt_now P m = (let (t, w) = hrt_absolute_time P (world m) in (t, m\<lparr>world := w\<rparr>))"

subsection \<open>The expiry callback\<close>

text \<open>
  \<open>stm32_oneshot_handler(arg)\<close>: debug output, \<open>test_cnt++\<close>,
  \<open>sched_timer_expiration()\<close>.  The upcall is recorded as an event; what the scheduler
  does in answer is the scheduler's.
\<close>

definition stm32_oneshot_handler ::
  "('o, 'f, 'e) platform \<Rightarrow> nat option \<Rightarrow> ('o, 'f, 'e) machine \<Rightarrow> ('o, 'f, 'e) machine" where
  "stm32_oneshot_handler P arg m =
     (let m1 = tcllvdbg P (''Expired...'' @ [CHR 0x0A]) m;
          m2 = m1\<lparr>test_cnt := test_cnt m1 + 1\<rparr>
      in emit Call_sched_timer_expiration m2)"

definition call_fnptr ::
  "('o, 'f, 'e) platform \<Rightarrow> fnptr \<Rightarrow> nat option \<Rightarrow> ('o, 'f, 'e) machine \<Rightarrow> ('o, 'f, 'e) machine" where
  "call_fnptr P h arg m = (case h of Stm32_oneshot_handler \<Rightarrow> stm32_oneshot_handler P arg m)"

text \<open>
  A point at which the one-shot timer's interrupt is taken if it is pending: the driver's
  interrupt service runs on the driver object and calls the registered callback.
\<close>

definition irq_point ::
  "('o, 'f, 'e) platform \<Rightarrow> ('o, 'f, 'e) machine \<Rightarrow> ('o, 'f, 'e) machine" where
  "irq_point P m =
     (case oneshot_interrupt P (oneshot (g_tickless m)) of
        (None, x) \<Rightarrow> set_oneshot x m
      | (Some (h, arg), x) \<Rightarrow> call_fnptr P h arg (set_oneshot x m))"

subsection \<open>The public functions\<close>

text \<open>\<open>up_timer_gettime(ts)\<close>: \<open>return stm32_freerun_counter(&g_tickless.freerun, ts);\<close>\<close>

definition up_timer_gettime ::
  "('o, 'f, 'e) platform \<Rightarrow> ('o, 'f, 'e) machine \<Rightarrow> int \<times> timespec \<times> ('o, 'f, 'e) machine" where
  "up_timer_gettime P m =
     (let (ret, ts, x) = stm32_freerun_counter P (freerun (g_tickless m))
      in (ret, ts, emit Call_freerun_counter (set_freerun x m)))"

text \<open>\<open>up_timer_cancel(ts)\<close>: \<open>return stm32_oneshot_cancel(&g_tickless.oneshot, ts);\<close>\<close>

definition up_timer_cancel ::
  "('o, 'f, 'e) platform \<Rightarrow> bool \<Rightarrow> ('o, 'f, 'e) machine
     \<Rightarrow> int \<times> timespec \<times> ('o, 'f, 'e) machine" where
  "up_timer_cancel P ts_given m =
     (let (ret, ts, x) = stm32_oneshot_cancel P (oneshot (g_tickless m)) ts_given
      in (ret, ts, emit (Call_oneshot_cancel ts_given) (set_oneshot x m)))"

text \<open>
  \<open>up_timer_start(ts)\<close>:
  \<open>return stm32_oneshot_start(&g_tickless.oneshot, stm32_oneshot_handler, NULL, ts);\<close>
\<close>

definition up_timer_start ::
  "('o, 'f, 'e) platform \<Rightarrow> timespec \<Rightarrow> ('o, 'f, 'e) machine \<Rightarrow> int \<times> ('o, 'f, 'e) machine" where
  "up_timer_start P ts m =
     (let (ret, x) = stm32_oneshot_start P (oneshot (g_tickless m)) Stm32_oneshot_handler None ts
      in (ret, emit (Call_oneshot_start Stm32_oneshot_handler None ts) (set_oneshot x m)))"

subsection \<open>up_timer_initialize\<close>

text \<open>
  After the two drivers are initialized the function runs a sweep: for \<open>s\<close> from 0 to 4
  and \<open>i\<close> from 50 in steps of 100 below 15000, twice each, it starts the interval timer
  with \<open>{s, i * 1000}\<close> and spins until either \<open>test_cnt\<close> has changed or half of the
  delay has passed on the high-resolution timer, in which case it cancels the timer.

  The spin loop \<open>while (cnt == test_cnt)\<close> may run forever; \<open>None\<close> is the run that
  does not return.  The interrupt is taken, if pending, before each read of the volatile
  \<open>test_cnt\<close>.  The pair carries the machine and the local \<open>st\<close>; the locals \<open>bk\<close>
  and \<open>Dt\<close> are computed as the code does.
\<close>

partial_function (option) sweep_wait ::
  "('o, 'f, 'e) platform \<Rightarrow> 32 word \<Rightarrow> 64 word \<Rightarrow> 64 word
     \<Rightarrow> ('o, 'f, 'e) machine \<times> 64 word \<Rightarrow> (('o, 'f, 'e) machine \<times> 64 word) option" where
  "sweep_wait P cnt Ts delay x =
     (let m1 = irq_point P (fst x) in
      if cnt = test_cnt m1 then
        (let (Tn, m2) = hrt_now P m1;
             D = Tn - Ts
         in if delay div 2 \<le> D then
              (let (ret, remain, m3) = up_timer_cancel P True m2;
                   bk = timespec_usec remain;
                   Dt = bk - delay div 2
               in Some (m3, if bk = delay div 2 then snd x + 1 else snd x - 1))
            else sweep_wait P cnt Ts delay (m2, snd x))
      else Some (m1, snd x))"

text \<open>The body of \<open>while (j--)\<close>.\<close>

definition sweep_body ::
  "('o, 'f, 'e) platform \<Rightarrow> int \<Rightarrow> int \<Rightarrow> ('o, 'f, 'e) machine \<times> 64 word
     \<Rightarrow> (('o, 'f, 'e) machine \<times> 64 word) option" where
  "sweep_body P s i x =
     (let ts = \<lparr>tv_sec = s, tv_nsec = i * 1000\<rparr>;
          m1 = irq_point P (fst x);
          cnt = test_cnt m1;
          m2 = PROBE 3 True m1;
          delay = timespec_usec ts;
          (ret, m3) = up_timer_start P ts m2;
          (Ts, m4) = hrt_now P m3
      in case sweep_wait P cnt Ts delay (m4, snd x) of
           None \<Rightarrow> None
         | Some (m5, st) \<Rightarrow> Some (PROBE 3 False m5, st))"

text \<open>\<open>int j = 2; while (j--) ...\<close>: the argument is the value of \<open>j\<close> at the test.\<close>

fun sweep_j ::
  "('o, 'f, 'e) platform \<Rightarrow> int \<Rightarrow> int \<Rightarrow> nat \<Rightarrow> ('o, 'f, 'e) machine \<times> 64 word
     \<Rightarrow> (('o, 'f, 'e) machine \<times> 64 word) option" where
  "sweep_j P s i 0 x = Some x"
| "sweep_j P s i (Suc j) x =
     (case sweep_body P s i x of None \<Rightarrow> None | Some y \<Rightarrow> sweep_j P s i j y)"

text \<open>\<open>for (int i = 50; i < 15000; i += 100)\<close>, entered with the current \<open>i\<close>.\<close>

function sweep_i ::
  "('o, 'f, 'e) platform \<Rightarrow> int \<Rightarrow> int \<Rightarrow> ('o, 'f, 'e) machine \<times> 64 word
     \<Rightarrow> (('o, 'f, 'e) machine \<times> 64 word) option" where
  "sweep_i P s i x =
     (if i < 15000
      then (case sweep_j P s i 2 x of None \<Rightarrow> None | Some y \<Rightarrow> sweep_i P s (i + 100) y)
      else Some x)"
  by pat_completeness auto
termination
  by (relation "measure (\<lambda>(P, s, i, x). nat (15000 - i))") auto

text \<open>\<open>for (s = 0; s < 5; s++)\<close>, entered with the current \<open>s\<close>.\<close>

function sweep_s ::
  "('o, 'f, 'e) platform \<Rightarrow> int \<Rightarrow> ('o, 'f, 'e) machine \<times> 64 word
     \<Rightarrow> (('o, 'f, 'e) machine \<times> 64 word) option" where
  "sweep_s P s x =
     (if s < 5
      then (case sweep_i P s 50 x of None \<Rightarrow> None | Some y \<Rightarrow> sweep_s P (s + 1) y)
      else Some x)"
  by pat_completeness auto
termination
  by (relation "measure (\<lambda>(P, s, x). nat (5 - s))") auto

text \<open>
  \<open>up_timer_initialize()\<close>: initialize the one-shot timer, then the free-running
  timer, each with its configured timer number and \<open>CONFIG_USEC_PER_TICK\<close>; \<open>PANIC\<close>
  if a driver returns a negative value; then \<open>hrt_init()\<close> and the sweep, with \<open>st = 0\<close>.
\<close>

definition up_timer_initialize ::
  "('o, 'f, 'e) platform \<Rightarrow> ('o, 'f, 'e) machine \<Rightarrow> ('o, 'f, 'e) machine outcome option" where
  "up_timer_initialize P m =
     (let (ret, x) = stm32_oneshot_initialize P (oneshot (g_tickless m))
                       (CONFIG_STM32_TICKLESS_ONESHOT P) (CONFIG_USEC_PER_TICK P);
          m1 = emit (Call_oneshot_initialize (CONFIG_STM32_TICKLESS_ONESHOT P)
                       (CONFIG_USEC_PER_TICK P)) (set_oneshot x m)
      in if ret < 0
         then Some (Halted (PANIC (tclldbg P (''ERROR: stm32_oneshot_initialize failed'' @ [CHR 0x0A]) m1)))
         else
           (let (ret, y) = stm32_freerun_initialize P (freerun (g_tickless m1))
                             (CONFIG_STM32_TICKLESS_FREERUN P) (CONFIG_USEC_PER_TICK P);
                m2 = emit (Call_freerun_initialize (CONFIG_STM32_TICKLESS_FREERUN P)
                             (CONFIG_USEC_PER_TICK P)) (set_freerun y m1)
            in if ret < 0
               then Some (Halted (PANIC (tclldbg P (''ERROR: stm32_freerun_initialize failed'' @ [CHR 0x0A]) m2)))
               else
                 (let m3 = m2\<lparr>world := hrt_init P (world m2)\<rparr>
                  in case sweep_s P 0 (m3, 0) of
                       None \<Rightarrow> None
                     | Some (m4, st) \<Rightarrow> Some (Returned m4))))"

subsection \<open>Observations on the trace\<close>

definition expirations :: "('o, 'f, 'e) machine \<Rightarrow> nat" where
  "expirations m = count_list (trace m) Call_sched_timer_expiration"

fun is_start :: "event \<Rightarrow> bool" where
  "is_start (Call_oneshot_start h arg ts) = True"
| "is_start e = False"

fun is_dbg :: "event \<Rightarrow> bool" where
  "is_dbg (Dbg msg) = True"
| "is_dbg e = False"

definition starts :: "('o, 'f, 'e) machine \<Rightarrow> nat" where
  "starts m = length (filter is_start (trace m))"

definition ts_zero :: timespec where
  "ts_zero = \<lparr>tv_sec = 0, tv_nsec = 0\<rparr>"

text \<open>The order of time stamps: seconds first, then nanoseconds.\<close>

definition ts_le :: "timespec \<Rightarrow> timespec \<Rightarrow> bool" where
  "ts_le a b \<longleftrightarrow> tv_sec a < tv_sec b \<or> (tv_sec a = tv_sec b \<and> tv_nsec a \<le> tv_nsec b)"

section \<open>The drivers, from their description\<close>

text \<open>
  The two drivers are not part of the file.  Where a property of the interface is decided
  by a driver, the driver is modelled from the specification of the two peripherals, in
  discrete time: one step is one tick of the shared resolution, \<open>res\<close> microseconds.
\<close>

subsection \<open>The free-running counter\<close>

text \<open>
  Modelled from the spec: \<open>struct stm32_freerun_s\<close> and the counter peripheral are
  missing.  Section 2, HardwareCounter: "a monotonically incrementing register clocked at
  a known resolution; may wrap at a fixed width".  The register is 32 bits wide (the
  header comment of the file: "32-bit counters").  \<open>ct_wraps\<close> is what every read needs
  to "account for the counter's wrap width" (section 3): the number of wrap-arounds since
  initialization.
\<close>

record spec_counter =
  ct_count :: "32 word"
  ct_wraps :: nat

definition spec_counter_tick :: "spec_counter \<Rightarrow> spec_counter" where
  "spec_counter_tick c =
     \<lparr>ct_count = ct_count c + 1,
      ct_wraps = (if ct_count c = - 1 then ct_wraps c + 1 else ct_wraps c)\<rparr>"

definition spec_counter_ticks :: "spec_counter \<Rightarrow> nat" where
  "spec_counter_ticks c = ct_wraps c * 2 ^ 32 + unat (ct_count c)"

text \<open>
  Modelled from the spec: the conversion of ticks to a time stamp.  Section 4.2: "converts
  ticks\<rightarrow>nanoseconds using the fixed resolution, and normalizes into seconds/nanoseconds".
\<close>

definition timespec_of_ticks :: "int \<Rightarrow> nat \<Rightarrow> timespec" where
  "timespec_of_ticks res n =
     (let nsec = int n * res * 1000
      in \<lparr>tv_sec = nsec div 1000000000, tv_nsec = nsec mod 1000000000\<rparr>)"

text \<open>
  Modelled from the spec: \<open>stm32_freerun_initialize\<close> is missing.  Section 4.1:
  initialization leaves "the counter running"; here it starts from zero.
\<close>

definition spec_freerun_initialize :: "spec_counter \<Rightarrow> int \<Rightarrow> int \<Rightarrow> int \<times> spec_counter" where
  "spec_freerun_initialize c chan res = (0, \<lparr>ct_count = 0, ct_wraps = 0\<rparr>)"

text \<open>
  Modelled from the spec: \<open>stm32_freerun_counter\<close> is missing.  Section 4.2: "reads the
  raw counter, converts ticks\<rightarrow>nanoseconds using the fixed resolution, and normalizes";
  section 6: "always succeeds post-initialization".
\<close>

definition spec_freerun_counter :: "int \<Rightarrow> spec_counter \<Rightarrow> int \<times> timespec \<times> spec_counter" where
  "spec_freerun_counter res c = (0, timespec_of_ticks res (spec_counter_ticks c), c)"

subsection \<open>The one-shot alarm\<close>

text \<open>
  Modelled from the spec: \<open>struct stm32_oneshot_s\<close> and the alarm peripheral are
  missing.  Section 4.5, the state machine of the alarm: \<open>IDLE\<close> and \<open>ARMED\<close>, "no other
  states exist".  An armed alarm holds the ticks left to its deadline and the registered
  callback with its argument.  \<open>al_busy\<close> is the condition of section 4.3 under which
  "the underlying peripheral cannot accept a new deadline".
\<close>

datatype alarm_state = IDLE | ARMED nat fnptr "nat option"

record spec_alarm =
  al_state :: alarm_state
  al_busy :: bool

definition EBUSY :: int where
  "EBUSY = 16"

text \<open>
  Modelled from the spec: the conversion of an interval to ticks.  Section 4.3: "converts
  interval (seconds + nanoseconds) to native ticks using the shared resolution".
\<close>

definition ticks_of_timespec :: "int \<Rightarrow> timespec \<Rightarrow> nat" where
  "ticks_of_timespec res ts = nat ((tv_sec ts * 1000000 + tv_nsec ts div 1000) div res)"

text \<open>
  Modelled from the spec: \<open>stm32_oneshot_initialize\<close> is missing.  Section 4.1:
  initialization leaves "the alarm disarmed".
\<close>

definition spec_oneshot_initialize :: "spec_alarm \<Rightarrow> int \<Rightarrow> int \<Rightarrow> int \<times> spec_alarm" where
  "spec_oneshot_initialize a chan res = (0, a\<lparr>al_state := IDLE\<rparr>)"

text \<open>
  Modelled from the spec: \<open>stm32_oneshot_start\<close> is missing.  Section 4.3: "programs
  the alarm to fire interval in the future", "an interval of zero is legal", "returns
  failure only if the underlying peripheral cannot accept a new deadline"; section 3: "a
  new start implicitly supersedes whatever was previously armed".
\<close>

definition spec_oneshot_start ::
  "int \<Rightarrow> spec_alarm \<Rightarrow> fnptr \<Rightarrow> nat option \<Rightarrow> timespec \<Rightarrow> int \<times> spec_alarm" where
  "spec_oneshot_start res a h arg ts =
     (if al_busy a then (- EBUSY, a)
      else (0, a\<lparr>al_state := ARMED (ticks_of_timespec res ts) h arg\<rparr>))"

text \<open>
  Modelled from the spec: \<open>stm32_oneshot_cancel\<close> is missing.  Section 4.4: (a) armed,
  deadline not reached: "disarm it, compute remaining = deadline - now in native ticks,
  convert to {seconds, nanoseconds}, return success"; (c) idle: "return success with
  remaining = 0".  Case (b), a deadline that has passed while the interrupt is not yet
  serviced, is no state of the machine of section 4.5; it is modelled apart, by
  \<open>latch_oneshot_cancel\<close> below.
\<close>

definition spec_oneshot_cancel :: "int \<Rightarrow> spec_alarm \<Rightarrow> bool \<Rightarrow> int \<times> timespec \<times> spec_alarm" where
  "spec_oneshot_cancel res a ts_given =
     (case al_state a of
        IDLE \<Rightarrow> (0, ts_zero, a)
      | ARMED r h arg \<Rightarrow> (0, timespec_of_ticks res r, a\<lparr>al_state := IDLE\<rparr>))"

text \<open>
  The platform built from the modelled drivers, for a resolution of \<open>res\<close> microseconds
  per tick.  The expiry is delivered by \<open>spec_tick\<close> below, in the step in which the
  deadline is reached, so no interrupt is ever left pending.
\<close>

definition spec_platform :: "int \<Rightarrow> (spec_alarm, spec_counter, unit) platform" where
  "spec_platform res =
     \<lparr>CONFIG_DEBUG = False, CONFIG_DEBUG_TIMER = False, CONFIG_DEBUG_VERBOSE = False,
      CONFIG_STM32_TICKLESS_ONESHOT = 2, CONFIG_STM32_TICKLESS_FREERUN = 5,
      CONFIG_USEC_PER_TICK = res,
      stm32_oneshot_initialize = spec_oneshot_initialize,
      stm32_freerun_initialize = spec_freerun_initialize,
      stm32_freerun_counter = spec_freerun_counter res,
      stm32_oneshot_cancel = spec_oneshot_cancel res,
      stm32_oneshot_start = spec_oneshot_start res,
      oneshot_interrupt = (\<lambda>a. (None, a)),
      hrt_init = (\<lambda>w. w),
      hrt_absolute_time = (\<lambda>w. (0, w))\<rparr>"

text \<open>
  Modelled from the spec: one tick of hardware time.  The counter advances; an armed alarm
  counts down and, when its deadline is reached, goes back to \<open>IDLE\<close> and its callback
  is called (section 4.5: \<open>ARMED --fires (HW)--> IDLE (+ notify)\<close>).  An interval of
  zero ticks expires at the first tick.
\<close>

definition spec_tick ::
  "(spec_alarm, spec_counter, 'e) platform \<Rightarrow> (spec_alarm, spec_counter, 'e) machine
     \<Rightarrow> (spec_alarm, spec_counter, 'e) machine" where
  "spec_tick P m =
     (let m1 = set_freerun (spec_counter_tick (freerun (g_tickless m))) m;
          a = oneshot (g_tickless m1)
      in case al_state a of
           IDLE \<Rightarrow> m1
         | ARMED r h arg \<Rightarrow>
             if r \<le> 1 then call_fnptr P h arg (set_oneshot (a\<lparr>al_state := IDLE\<rparr>) m1)
             else set_oneshot (a\<lparr>al_state := ARMED (r - 1) h arg\<rparr>) m1)"

text \<open>
  A sequence of \<open>up_timer_gettime\<close> calls: the \<open>n\<close>-th call is made after the \<open>n\<close>-th
  number of ticks of the list has passed since the call before.
\<close>

fun gettime_seq ::
  "(spec_alarm, spec_counter, 'e) platform \<Rightarrow> nat list \<Rightarrow> (spec_alarm, spec_counter, 'e) machine
     \<Rightarrow> timespec list" where
  "gettime_seq P [] m = []"
| "gettime_seq P (k # ks) m =
     (let (ret, ts, m') = up_timer_gettime P ((spec_tick P ^^ k) m)
      in ts # gettime_seq P ks m')"

text \<open>The tick counts at which the calls of such a sequence are made, from the count \<open>t\<close>.\<close>

fun reading_times :: "nat \<Rightarrow> nat list \<Rightarrow> nat list" where
  "reading_times t [] = []"
| "reading_times t (k # ks) = (t + k) # reading_times (t + k) ks"

subsection \<open>The alarm with its interrupt latch\<close>












section \<open>Test fixtures\<close>

text \<open>
  Drivers that report the code held in the driver object: whatever the peripheral says
  is what the driver returns.
\<close>

definition echo_platform :: "(int, int, unit) platform" where
  "echo_platform =
     \<lparr>CONFIG_DEBUG = False, CONFIG_DEBUG_TIMER = False, CONFIG_DEBUG_VERBOSE = False,
      CONFIG_STM32_TICKLESS_ONESHOT = 2, CONFIG_STM32_TICKLESS_FREERUN = 5,
      CONFIG_USEC_PER_TICK = 100,
      stm32_oneshot_initialize = (\<lambda>x chan res. (x, x)),
      stm32_freerun_initialize = (\<lambda>y chan res. (y, y)),
      stm32_freerun_counter = (\<lambda>y. (y, ts_zero, y)),
      stm32_oneshot_cancel = (\<lambda>x ts_given. (x, ts_zero, x)),
      stm32_oneshot_start = (\<lambda>x h arg ts. (x, x)),
      oneshot_interrupt = (\<lambda>x. (None, x)),
      hrt_init = (\<lambda>w. w),
      hrt_absolute_time = (\<lambda>w. (0, w))\<rparr>"

definition echo_machine :: "int \<Rightarrow> int \<Rightarrow> (int, int, unit) machine" where
  "echo_machine x y =
     \<lparr>g_tickless = \<lparr>oneshot = x, freerun = y\<rparr>, test_cnt = 0, world = (), trace = []\<rparr>"

text \<open>
  An eager one-shot timer: the driver object holds the registered callback, every start
  succeeds, and the timer expires as soon as the interrupt can be taken.
\<close>

definition eager_platform :: "((fnptr \<times> nat option) option, unit, unit) platform" where
  "eager_platform =
     \<lparr>CONFIG_DEBUG = False, CONFIG_DEBUG_TIMER = False, CONFIG_DEBUG_VERBOSE = False,
      CONFIG_STM32_TICKLESS_ONESHOT = 2, CONFIG_STM32_TICKLESS_FREERUN = 5,
      CONFIG_USEC_PER_TICK = 100,
      stm32_oneshot_initialize = (\<lambda>x chan res. (0, None)),
      stm32_freerun_initialize = (\<lambda>y chan res. (0, y)),
      stm32_freerun_counter = (\<lambda>y. (0, ts_zero, y)),
      stm32_oneshot_cancel = (\<lambda>x ts_given. (0, ts_zero, None)),
      stm32_oneshot_start = (\<lambda>x h arg ts. (0, Some (h, arg))),
      oneshot_interrupt = (\<lambda>x. (x, None)),
      hrt_init = (\<lambda>w. w),
      hrt_absolute_time = (\<lambda>w. (0, w))\<rparr>"

definition eager_machine :: "((fnptr \<times> nat option) option, unit, unit) machine" where
  "eager_machine =
     \<lparr>g_tickless = \<lparr>oneshot = None, freerun = ()\<rparr>, test_cnt = 0, world = (), trace = []\<rparr>"

text \<open>A machine of the modelled drivers: alarm idle, counter two ticks before it wraps.\<close>

definition spec_machine :: "(spec_alarm, spec_counter, unit) machine" where
  "spec_machine =
     \<lparr>g_tickless = \<lparr>oneshot = \<lparr>al_state = IDLE, al_busy = False\<rparr>,
                    freerun = \<lparr>ct_count = 0xFFFFFFFE, ct_wraps = 0\<rparr>\<rparr>,
      test_cnt = 0, world = (), trace = []\<rparr>"



section \<open>Properties of the file, for every driver\<close>

declare sweep_s.simps [simp del] sweep_i.simps [simp del]

subsection \<open>Failure of a driver's initialization\<close>

lemma halted_oneshot:
  assumes "fst (stm32_oneshot_initialize P (oneshot (g_tickless m))
             (CONFIG_STM32_TICKLESS_ONESHOT P) (CONFIG_USEC_PER_TICK P)) < 0"
  shows "\<exists>m'. up_timer_initialize P m = Some (Halted m') \<and> last (trace m') = Panic"
  using assms
  by (cases "stm32_oneshot_initialize P (oneshot (g_tickless m))
               (CONFIG_STM32_TICKLESS_ONESHOT P) (CONFIG_USEC_PER_TICK P)")
     (simp add: up_timer_initialize_def PANIC_def emit_def Let_def)

lemma halted_freerun:
  assumes "\<not> fst (stm32_oneshot_initialize P (oneshot (g_tickless m))
             (CONFIG_STM32_TICKLESS_ONESHOT P) (CONFIG_USEC_PER_TICK P)) < 0"
    and "fst (stm32_freerun_initialize P (freerun (g_tickless m))
             (CONFIG_STM32_TICKLESS_FREERUN P) (CONFIG_USEC_PER_TICK P)) < 0"
  shows "\<exists>m'. up_timer_initialize P m = Some (Halted m') \<and> last (trace m') = Panic"
  using assms
  by (cases "stm32_oneshot_initialize P (oneshot (g_tickless m))
               (CONFIG_STM32_TICKLESS_ONESHOT P) (CONFIG_USEC_PER_TICK P)";
      cases "stm32_freerun_initialize P (freerun (g_tickless m))
               (CONFIG_STM32_TICKLESS_FREERUN P) (CONFIG_USEC_PER_TICK P)")
     (simp add: up_timer_initialize_def PANIC_def emit_def set_oneshot_def Let_def)

text \<open>
  C2: if the initialization of the one-shot timer or of the free-running timer fails (the
  driver returns a negative value), \<open>up_timer_initialize\<close> does not return: the system
  is halted by \<open>PANIC\<close>, the last thing the file does.
\<close>

theorem up_timer_initialize_panics:
  assumes "fst (stm32_oneshot_initialize P (oneshot (g_tickless m))
             (CONFIG_STM32_TICKLESS_ONESHOT P) (CONFIG_USEC_PER_TICK P)) < 0
         \<or> fst (stm32_freerun_initialize P (freerun (g_tickless m))
             (CONFIG_STM32_TICKLESS_FREERUN P) (CONFIG_USEC_PER_TICK P)) < 0"
  shows "\<exists>m'. up_timer_initialize P m = Some (Halted m') \<and> last (trace m') = Panic"
  using assms halted_oneshot [of P m] halted_freerun [of P m] by blast

theorem up_timer_initialize_panics_witness:
  "(\<exists>m'. up_timer_initialize echo_platform (echo_machine (- 5) 0) = Some (Halted m')
          \<and> last (trace m') = Panic)
   \<and> (\<exists>m'. up_timer_initialize echo_platform (echo_machine 0 (- 5)) = Some (Halted m')
          \<and> last (trace m') = Panic)"
  using up_timer_initialize_panics [of echo_platform "echo_machine (- 5) 0"]
        up_timer_initialize_panics [of echo_platform "echo_machine 0 (- 5)"]
  by (simp add: echo_platform_def echo_machine_def)

subsection \<open>The expiry callback\<close>

text \<open>
  C9: every invocation of \<open>stm32_oneshot_handler\<close> makes exactly one call of
  \<open>sched_timer_expiration\<close> (beside its debug output it records nothing else, and no
  call into a driver), increments \<open>test_cnt\<close> once and leaves \<open>g_tickless\<close> and
  the rest of the state as they were.
\<close>

theorem handler_one_upcall:
  "expirations (stm32_oneshot_handler P arg m) = expirations m + 1
   \<and> starts (stm32_oneshot_handler P arg m) = starts m
   \<and> filter (\<lambda>e. \<not> is_dbg e) (trace (stm32_oneshot_handler P arg m))
       = filter (\<lambda>e. \<not> is_dbg e) (trace m) @ [Call_sched_timer_expiration]
   \<and> test_cnt (stm32_oneshot_handler P arg m) = test_cnt m + 1
   \<and> g_tickless (stm32_oneshot_handler P arg m) = g_tickless m
   \<and> world (stm32_oneshot_handler P arg m) = world m"
  by (simp add: stm32_oneshot_handler_def tcllvdbg_def emit_def expirations_def starts_def Let_def)

subsection \<open>Reading the time\<close>

text \<open>
  C10: \<open>up_timer_gettime\<close> works on the free-running half of \<open>g_tickless\<close> only: the
  one-shot driver object (armed or idle, deadline, registered callback) is the same after
  the call, as are \<open>test_cnt\<close> and the high-resolution timer, and the one thing the call
  does is the call of \<open>stm32_freerun_counter\<close>.
\<close>

theorem gettime_frame:
  "oneshot (g_tickless (snd (snd (up_timer_gettime P m)))) = oneshot (g_tickless m)
   \<and> test_cnt (snd (snd (up_timer_gettime P m))) = test_cnt m
   \<and> world (snd (snd (up_timer_gettime P m))) = world m
   \<and> trace (snd (snd (up_timer_gettime P m))) = trace m @ [Call_freerun_counter]"
  by (simp add: up_timer_gettime_def emit_def set_freerun_def split: prod.splits)

subsection \<open>Return codes\<close>

text \<open>
  C8, as stated, fails: nothing is converted at the boundary.  Three different negative
  codes of the one-shot driver come back from \<open>up_timer_start\<close> as they are, and so do
  codes from \<open>up_timer_cancel\<close> and \<open>up_timer_gettime\<close>.
\<close>

theorem raw_code_counterexample:
  "fst (up_timer_start echo_platform ts_zero (echo_machine (- 5) 0)) = - 5
   \<and> fst (up_timer_start echo_platform ts_zero (echo_machine (- 16) 0)) = - 16
   \<and> fst (up_timer_start echo_platform ts_zero (echo_machine (- 22) 0)) = - 22
   \<and> fst (up_timer_cancel echo_platform True (echo_machine (- 22) 0)) = - 22
   \<and> fst (up_timer_gettime echo_platform (echo_machine 0 (- 22))) = - 22"
  by (simp add: up_timer_start_def up_timer_cancel_def up_timer_gettime_def echo_platform_def echo_machine_def)

text \<open>
  C8, amended: \<open>up_timer_gettime\<close>, \<open>up_timer_cancel\<close> and \<open>up_timer_start\<close> return
  the return value of the driver function they call, unchanged.
\<close>

theorem return_code_passed_through:
  "fst (up_timer_gettime P m) = fst (stm32_freerun_counter P (freerun (g_tickless m)))
   \<and> fst (up_timer_cancel P ts_given m) = fst (stm32_oneshot_cancel P (oneshot (g_tickless m)) ts_given)
   \<and> fst (up_timer_start P ts m)
       = fst (stm32_oneshot_start P (oneshot (g_tickless m)) Stm32_oneshot_handler None ts)"
  by (simp add: up_timer_start_def up_timer_cancel_def up_timer_gettime_def split: prod.splits)

subsection \<open>The sweep in up_timer_initialize\<close>

lemma starts_emit: "starts (emit e m) = (if is_start e then Suc (starts m) else starts m)"
  by (simp add: starts_def emit_def)

lemma starts_set_oneshot: "starts (set_oneshot x m) = starts m"
  by (simp add: starts_def set_oneshot_def)

lemma starts_handler: "starts (stm32_oneshot_handler P arg m) = starts m"
  by (simp add: stm32_oneshot_handler_def tcllvdbg_def starts_def emit_def Let_def)

lemma starts_irq_point: "starts (irq_point P m) = starts m"
  by (simp add: irq_point_def call_fnptr_def starts_handler starts_set_oneshot
           split: prod.splits option.splits fnptr.splits)

lemma starts_hrt_now: "hrt_now P m = (t, m') \<Longrightarrow> starts m' = starts m"
  by (auto simp: hrt_now_def starts_def split: prod.splits)

lemma starts_cancel: "up_timer_cancel P b m = (ret, ts, m') \<Longrightarrow> starts m' = starts m"
  by (auto simp: up_timer_cancel_def starts_emit starts_set_oneshot split: prod.splits)

lemma starts_start: "up_timer_start P ts m = (ret, m') \<Longrightarrow> starts m' = Suc (starts m)"
  by (auto simp: up_timer_start_def starts_emit starts_set_oneshot split: prod.splits)

lemma sweep_wait_starts:
  assumes "sweep_wait P cnt Ts delay x = Some y"
  shows "starts (fst y) = starts (fst x)"
proof -
  define Q where "Q = (\<lambda>(a :: ((((('a, 'b, 'c) platform \<times> 32 word) \<times> 64 word) \<times> 64 word)
                          \<times> (('a, 'b, 'c) machine \<times> 64 word)))
                        (y :: ('a, 'b, 'c) machine \<times> 64 word).
                      starts (fst y) = starts (fst (snd a)))"
  have "Q ((((P, cnt), Ts), delay), x) y"
  proof (rule sweep_wait.raw_induct [where Pa = Q])
    show "(case ((((P, cnt), Ts), delay), x) of
            (x, xa) \<Rightarrow> (case x of (x, xa) \<Rightarrow> (case x of (x, xa) \<Rightarrow>
              (case x of (x, xa) \<Rightarrow> sweep_wait x xa) xa) xa) xa) = Some y"
      using assms by simp
  next
    fix sw :: "('a, 'b, 'c) platform \<Rightarrow> 32 word \<Rightarrow> 64 word \<Rightarrow> 64 word
                 \<Rightarrow> ('a, 'b, 'c) machine \<times> 64 word \<Rightarrow> (('a, 'b, 'c) machine \<times> 64 word) option"
    fix P cnt Ts delay x y
    assume IH: "\<And>P cnt Ts delay x y. sw P cnt Ts delay x = Some y
                  \<Longrightarrow> Q ((((P, cnt), Ts), delay), x) y"
    assume step: "(let m1 = irq_point P (fst x)
      in if cnt = test_cnt m1
         then let (Tn, m2) = hrt_now P m1; D = Tn - Ts
              in if delay div 2 \<le> D
                 then let (ret, remain, m3) = up_timer_cancel P True m2;
                          bk = timespec_usec remain;
                          Dt = bk - delay div 2
                      in Some (m3, if bk = delay div 2 then snd x + 1 else snd x - 1)
                 else sw P cnt Ts delay (m2, snd x)
         else Some (m1, snd x)) = Some y"
    show "Q ((((P, cnt), Ts), delay), x) y"
    proof (cases "cnt = test_cnt (irq_point P (fst x))")
      case False
      with step show ?thesis by (auto simp: Let_def starts_irq_point Q_def)
    next
      case True
      obtain Tn m2 where h: "hrt_now P (irq_point P (fst x)) = (Tn, m2)" by force
      have s2: "starts m2 = starts (fst x)"
        using starts_hrt_now [OF h] by (simp add: starts_irq_point)
      show ?thesis
      proof (cases "delay div 2 \<le> Tn - Ts")
        case True
        obtain ret remain m3 where c: "up_timer_cancel P True m2 = (ret, remain, m3)"
          by (metis prod_cases3)
        from step \<open>cnt = test_cnt (irq_point P (fst x))\<close> h True c
        have "fst y = m3" by (auto simp: Let_def)
        then show ?thesis using starts_cancel [OF c] s2 by (simp add: Q_def)
      next
        case False
        from step \<open>cnt = test_cnt (irq_point P (fst x))\<close> h False
        have "sw P cnt Ts delay (m2, snd x) = Some y" by (simp add: Let_def)
        from IH [OF this] show ?thesis using s2 by (simp add: Q_def)
      qed
    qed
  qed
  then show ?thesis by (simp add: Q_def)
qed

lemma sweep_body_starts:
  assumes "sweep_body P s i x = Some y"
  shows "starts (fst y) = Suc (starts (fst x))"
proof -
  let ?m2 = "PROBE 3 True (irq_point P (fst x))"
  let ?ts = "\<lparr>tv_sec = s, tv_nsec = i * 1000\<rparr>"
  obtain ret m3 where a: "up_timer_start P ?ts ?m2 = (ret, m3)" by force
  obtain Ts m4 where b: "hrt_now P m3 = (Ts, m4)" by force
  have s4: "starts m4 = Suc (starts (fst x))"
    using starts_start [OF a] starts_hrt_now [OF b]
    by (simp add: PROBE_def starts_emit starts_irq_point)
  from assms a b obtain m5 st where
    w: "sweep_wait P (test_cnt (irq_point P (fst x))) Ts
          (timespec_usec ?ts) (m4, snd x) = Some (m5, st)"
    and y: "y = (PROBE 3 False m5, st)"
    by (auto simp: sweep_body_def Let_def PROBE_def emit_def split: option.splits)
  from sweep_wait_starts [OF w] s4 y show ?thesis
    by (simp add: PROBE_def starts_emit)
qed

lemma sweep_j_starts:
  "sweep_j P s i j x = Some y \<Longrightarrow> starts (fst y) = starts (fst x) + j"
  by (induction j arbitrary: x) (auto split: option.splits dest: sweep_body_starts)

lemma sweep_i_starts:
  "sweep_i P s i x = Some y \<Longrightarrow> starts (fst y) = starts (fst x) + 2 * nat ((15099 - i) div 100)"
proof (induction P s i x rule: sweep_i.induct)
  case (1 P s i x)
  show ?case
  proof (cases "i < 15000")
    case False
    with "1.prems" show ?thesis by (simp add: sweep_i.simps)
  next
    case True
    with "1.prems" obtain z where j: "sweep_j P s i 2 x = Some z"
      and r: "sweep_i P s (i + 100) z = Some y"
      by (auto simp: sweep_i.simps [of P s i x] split: option.splits)
    have "nat ((15099 - i) div 100) = Suc (nat ((15099 - (i + 100)) div 100))"
      using True by arith
    with "1.IH" [OF True j r] sweep_j_starts [OF j] show ?thesis by simp
  qed
qed

lemma sweep_s_starts:
  "sweep_s P s x = Some y \<Longrightarrow> starts (fst y) = starts (fst x) + 300 * nat (5 - s)"
proof (induction P s x rule: sweep_s.induct)
  case (1 P s x)
  show ?case
  proof (cases "s < 5")
    case False
    with "1.prems" show ?thesis by (simp add: sweep_s.simps)
  next
    case True
    with "1.prems" obtain z where j: "sweep_i P s 50 x = Some z"
      and r: "sweep_s P (s + 1) z = Some y"
      by (auto simp: sweep_s.simps [of P s x] split: option.splits)
    have "nat (5 - s) = Suc (nat (5 - (s + 1)))"
      using True by simp
    with "1.IH" [OF True j r] sweep_i_starts [OF j] show ?thesis by simp
  qed
qed

lemma eager_sel:
  "oneshot_interrupt eager_platform = (\<lambda>x. (x, None))"
  "stm32_oneshot_start eager_platform = (\<lambda>x h arg ts. (0, Some (h, arg)))"
  "stm32_oneshot_initialize eager_platform = (\<lambda>x chan res. (0, None))"
  "stm32_freerun_initialize eager_platform = (\<lambda>y chan res. (0, y))"
  "hrt_absolute_time eager_platform = (\<lambda>w. (0, w))"
  "CONFIG_DEBUG eager_platform = False"
  by (simp_all add: eager_platform_def)

lemma eager_wait:
  assumes "oneshot (g_tickless m) = Some (Stm32_oneshot_handler, arg)" and "test_cnt m = cnt"
  shows "\<exists>y. sweep_wait eager_platform cnt Ts delay (m, st) = Some y"
  using assms
  by (subst sweep_wait.simps)
     (simp add: irq_point_def eager_sel call_fnptr_def stm32_oneshot_handler_def
        tcllvdbg_def emit_def set_oneshot_def Let_def)

lemma eager_body: "\<exists>y. sweep_body eager_platform s i x = Some y"
proof -
  let ?ts = "\<lparr>tv_sec = s, tv_nsec = i * 1000\<rparr>"
  let ?m1 = "irq_point eager_platform (fst x)"
  obtain ret m3 where a: "up_timer_start eager_platform ?ts (PROBE 3 True ?m1) = (ret, m3)"
    by force
  obtain Ts m4 where b: "hrt_now eager_platform m3 = (Ts, m4)" by force
  from a b have "oneshot (g_tickless m4) = Some (Stm32_oneshot_handler, None)"
    and "test_cnt m4 = test_cnt ?m1"
    by (auto simp: up_timer_start_def hrt_now_def eager_sel PROBE_def emit_def set_oneshot_def)
  from eager_wait [OF this] obtain y where
    "sweep_wait eager_platform (test_cnt ?m1) Ts
       (timespec_usec ?ts) (m4, snd x) = Some y"
    by blast
  with a b show ?thesis
    by (cases y) (simp add: sweep_body_def Let_def)
qed

lemma eager_j: "\<exists>y. sweep_j eager_platform s i j x = Some y"
proof (induction j arbitrary: x)
  case 0
  show ?case by simp
next
  case (Suc j)
  obtain z where "sweep_body eager_platform s i x = Some z" using eager_body by blast
  with Suc [of z] show ?case by simp
qed

lemma eager_i: "\<exists>y. sweep_i eager_platform s i x = Some y"
proof (induction eager_platform s i x rule: sweep_i.induct)
  case (1 s i x)
  show ?case
  proof (cases "i < 15000")
    case False
    then show ?thesis by (simp add: sweep_i.simps)
  next
    case True
    obtain z where z: "sweep_j eager_platform s i 2 x = Some z" using eager_j by blast
    from "1" [OF True z] True z show ?thesis by (simp add: sweep_i.simps [of _ s i x])
  qed
qed

lemma eager_s: "\<exists>y. sweep_s eager_platform s x = Some y"
proof (induction eager_platform s x rule: sweep_s.induct)
  case (1 s x)
  show ?case
  proof (cases "s < 5")
    case False
    then show ?thesis by (simp add: sweep_s.simps)
  next
    case True
    obtain z where z: "sweep_i eager_platform s 50 x = Some z" using eager_i by blast
    from "1" [OF True z] True z show ?thesis by (simp add: sweep_s.simps [of _ s x])
  qed
qed

lemma eager_returns: "\<exists>m'. up_timer_initialize eager_platform eager_machine = Some (Returned m')"
proof -
  have "\<exists>y. sweep_s eager_platform 0 (m, 0) = Some y" for m
    by (rule eager_s)
  then show ?thesis
    by (simp add: up_timer_initialize_def Let_def eager_sel split: option.splits)
qed


text \<open>
  C1 fails on the code.  Every run of \<open>up_timer_initialize\<close> that returns has started
  the interval timer 1500 times (5 values of \<open>s\<close>, 150 values of \<open>i\<close>, twice each),
  whatever the drivers do: the function arms the alarm, and each round of the sweep ends
  with an expiry or a cancel.  The header comment of the function promises a timer that is
  "ready for use (but not actively timing".
\<close>

theorem up_timer_initialize_sweep_starts:
  assumes "up_timer_initialize P m = Some (Returned m')"
  shows "starts m' = starts m + 1500"
proof -
  obtain r1 x where a: "stm32_oneshot_initialize P (oneshot (g_tickless m))
      (CONFIG_STM32_TICKLESS_ONESHOT P) (CONFIG_USEC_PER_TICK P) = (r1, x)" by force
  define m1 where "m1 = emit (Call_oneshot_initialize (CONFIG_STM32_TICKLESS_ONESHOT P)
      (CONFIG_USEC_PER_TICK P)) (set_oneshot x m)"
  obtain r2 y where b: "stm32_freerun_initialize P (freerun (g_tickless m1))
      (CONFIG_STM32_TICKLESS_FREERUN P) (CONFIG_USEC_PER_TICK P) = (r2, y)" by force
  define m3 where "m3 = (emit (Call_freerun_initialize (CONFIG_STM32_TICKLESS_FREERUN P)
      (CONFIG_USEC_PER_TICK P)) (set_freerun y m1))\<lparr>world := hrt_init P (world (emit
      (Call_freerun_initialize (CONFIG_STM32_TICKLESS_FREERUN P)
      (CONFIG_USEC_PER_TICK P)) (set_freerun y m1)))\<rparr>"
  have s3: "starts m3 = starts m"
    by (simp add: m3_def m1_def starts_def emit_def set_freerun_def set_oneshot_def)
  from assms a b obtain st where "sweep_s P 0 (m3, 0) = Some (m', st)"
    by (auto simp: up_timer_initialize_def Let_def m1_def m3_def split: if_splits option.splits)
  from sweep_s_starts [OF this] s3 show ?thesis by simp
qed

theorem up_timer_initialize_sweep_starts_witness:
  "\<exists>m'. up_timer_initialize eager_platform eager_machine = Some (Returned m') \<and> starts m' = 1500"
proof -
  from eager_returns obtain m' where
    r: "up_timer_initialize eager_platform eager_machine = Some (Returned m')" by blast
  from up_timer_initialize_sweep_starts [OF r] have "starts m' = 1500"
    by (simp add: starts_def eager_machine_def)
  with r show ?thesis by blast
qed

section \<open>Properties that rest on the modelled drivers\<close>

subsection \<open>The time read from the counter\<close>

lemma spec_sel:
  "stm32_freerun_counter (spec_platform res) = spec_freerun_counter res"
  "stm32_oneshot_cancel (spec_platform res) = spec_oneshot_cancel res"
  "stm32_oneshot_start (spec_platform res) = spec_oneshot_start res"
  "CONFIG_DEBUG (spec_platform res) = False"
  by (simp_all add: spec_platform_def)

lemma spec_counter_ticks_tick:
  "spec_counter_ticks (spec_counter_tick c) = Suc (spec_counter_ticks c)"
proof (cases "ct_count c = - 1")
  case True
  then show ?thesis
    by (simp add: spec_counter_ticks_def spec_counter_tick_def unsigned_minus_1_eq_mask mask_eq_exp_minus_1)
next
  case False
  then have "1 + ct_count c \<noteq> 0"
    by (metis add.commute add_eq_0_iff)
  from unatSuc [OF this] False show ?thesis
    by (simp add: spec_counter_ticks_def spec_counter_tick_def add.commute)
qed

lemma freerun_handler:
  "g_tickless (call_fnptr P h arg m) = g_tickless m"
  by (cases h) (simp add: call_fnptr_def stm32_oneshot_handler_def tcllvdbg_def emit_def Let_def)

lemma freerun_spec_tick:
  "freerun (g_tickless (spec_tick P m)) = spec_counter_tick (freerun (g_tickless m))"
  by (simp add: spec_tick_def Let_def freerun_handler set_oneshot_def set_freerun_def
           split: alarm_state.splits)

lemma ticks_spec_tick_funpow:
  "spec_counter_ticks (freerun (g_tickless ((spec_tick P ^^ k) m)))
     = spec_counter_ticks (freerun (g_tickless m)) + k"
  by (induction k) (simp_all add: freerun_spec_tick spec_counter_ticks_tick)

lemma timespec_of_ticks_mono:
  assumes "0 \<le> res" and "n \<le> n'"
  shows "ts_le (timespec_of_ticks res n) (timespec_of_ticks res n')"
proof -
  let ?a = "int n * res * 1000" and ?b = "int n' * res * 1000"
  have ab: "?a \<le> ?b" using assms by (simp add: mult_right_mono)
  then have d: "?a div 1000000000 \<le> ?b div 1000000000"
    by (rule zdiv_mono1) simp
  show ?thesis
  proof (cases "?a div 1000000000 = ?b div 1000000000")
    case False
    with d show ?thesis by (simp add: ts_le_def timespec_of_ticks_def Let_def)
  next
    case True
    have "?a mod 1000000000 = ?a - 1000000000 * (?a div 1000000000)"
      by (rule minus_mult_div_eq_mod [symmetric])
    moreover have "?b mod 1000000000 = ?b - 1000000000 * (?b div 1000000000)"
      by (rule minus_mult_div_eq_mod [symmetric])
    ultimately have "?a mod 1000000000 \<le> ?b mod 1000000000"
      using ab True by simp
    with True show ?thesis by (simp add: ts_le_def timespec_of_ticks_def Let_def)
  qed
qed

lemma ts_le_trans: "ts_le a b \<Longrightarrow> ts_le b c \<Longrightarrow> ts_le a c"
  by (auto simp: ts_le_def)

lemma spec_gettime:
  "up_timer_gettime (spec_platform res) m
     = (0, timespec_of_ticks res (spec_counter_ticks (freerun (g_tickless m))),
        emit Call_freerun_counter (set_freerun (freerun (g_tickless m)) m))"
  by (simp add: up_timer_gettime_def spec_sel spec_freerun_counter_def)

lemma gettime_seq_ge:
  assumes "0 \<le> res" and "ts \<in> set (gettime_seq (spec_platform res) ks m)"
  shows "ts_le (timespec_of_ticks res (spec_counter_ticks (freerun (g_tickless m)))) ts"
  using assms(2)
proof (induction ks arbitrary: m)
  case Nil
  then show ?case by simp
next
  case (Cons k ks)
  let ?m1 = "(spec_tick (spec_platform res) ^^ k) m"
  let ?m2 = "emit Call_freerun_counter (set_freerun (freerun (g_tickless ?m1)) ?m1)"
  have f2: "freerun (g_tickless ?m2) = freerun (g_tickless ?m1)"
    by (simp add: emit_def set_freerun_def)
  have t1: "spec_counter_ticks (freerun (g_tickless ?m1))
              = spec_counter_ticks (freerun (g_tickless m)) + k"
    by (rule ticks_spec_tick_funpow)
  have le: "ts_le (timespec_of_ticks res (spec_counter_ticks (freerun (g_tickless m))))
                  (timespec_of_ticks res (spec_counter_ticks (freerun (g_tickless ?m1))))"
    using timespec_of_ticks_mono [OF assms(1)] t1 by simp
  from Cons.prems consider
      "ts = timespec_of_ticks res (spec_counter_ticks (freerun (g_tickless ?m1)))"
    | "ts \<in> set (gettime_seq (spec_platform res) ks ?m2)"
    by (auto simp: spec_gettime)
  then show ?case
  proof cases
    case 1
    with le show ?thesis by simp
  next
    case 2
    from Cons.IH [OF 2] have
      "ts_le (timespec_of_ticks res (spec_counter_ticks (freerun (g_tickless ?m1)))) ts"
      by (simp add: f2)
    with le show ?thesis by (rule ts_le_trans)
  qed
qed

lemma gettime_seq_sorted:
  assumes "0 \<le> res"
  shows "sorted_wrt ts_le (gettime_seq (spec_platform res) ks m)"
proof (induction ks arbitrary: m)
  case Nil
  show ?case by simp
next
  case (Cons k ks)
  let ?m1 = "(spec_tick (spec_platform res) ^^ k) m"
  let ?m2 = "emit Call_freerun_counter (set_freerun (freerun (g_tickless ?m1)) ?m1)"
  have f2: "freerun (g_tickless ?m2) = freerun (g_tickless ?m1)"
    by (simp add: emit_def set_freerun_def)
  have "\<forall>ts \<in> set (gettime_seq (spec_platform res) ks ?m2).
          ts_le (timespec_of_ticks res (spec_counter_ticks (freerun (g_tickless ?m1)))) ts"
    using gettime_seq_ge [OF assms, of _ ks ?m2] by (simp add: f2)
  with Cons.IH [of ?m2] show ?case by (simp add: spec_gettime)
qed

lemma gettime_seq_nsec:
  "ts \<in> set (gettime_seq (spec_platform res) ks m) \<Longrightarrow> 0 \<le> tv_nsec ts \<and> tv_nsec ts < 1000000000"
  by (induction ks arbitrary: m) (auto simp: spec_gettime timespec_of_ticks_def Let_def)

lemma gettime_seq_reading_times:
  "gettime_seq (spec_platform res) ks m
     = map (timespec_of_ticks res) (reading_times (spec_counter_ticks (freerun (g_tickless m))) ks)"
proof (induction ks arbitrary: m)
  case Nil
  show ?case by simp
next
  case (Cons k ks)
  let ?m1 = "(spec_tick (spec_platform res) ^^ k) m"
  let ?m2 = "emit Call_freerun_counter (set_freerun (freerun (g_tickless ?m1)) ?m1)"
  have "spec_counter_ticks (freerun (g_tickless ?m2))
          = spec_counter_ticks (freerun (g_tickless m)) + k"
    using ticks_spec_tick_funpow [where P = "spec_platform res" and k = k and m = m]
    by (simp add: emit_def set_freerun_def)
  with Cons.IH [of ?m2] show ?case
    by (simp add: spec_gettime ticks_spec_tick_funpow)
qed

lemma spec_machine_ticks: "spec_counter_ticks (freerun (g_tickless spec_machine)) = 4294967294"
  by (simp add: spec_machine_def spec_counter_ticks_def)

lemma spec_machine_readings:
  "gettime_seq (spec_platform 100) [1, 1, 1] spec_machine
     = [\<lparr>tv_sec = 429496, tv_nsec = 729500000\<rparr>,
        \<lparr>tv_sec = 429496, tv_nsec = 729600000\<rparr>,
        \<lparr>tv_sec = 429496, tv_nsec = 729700000\<rparr>]"
  by (simp only: gettime_seq_reading_times spec_machine_ticks) (simp add: timespec_of_ticks_def)

text \<open>
  C3: in every sequence of \<open>up_timer_gettime\<close> calls, whatever number of ticks passes
  between two calls, the time stamps returned are non-decreasing, also when the 32-bit
  counter wraps around between two calls, and the nanoseconds of every time stamp are in
  \<open>[0, 10\<^sup>9)\<close>.  The resolution is not negative.
\<close>

theorem gettime_nondecreasing:
  assumes "0 \<le> res"
  shows "sorted_wrt ts_le (gettime_seq (spec_platform res) ks m)
         \<and> (\<forall>ts \<in> set (gettime_seq (spec_platform res) ks m).
               0 \<le> tv_nsec ts \<and> tv_nsec ts < 1000000000)"
  using gettime_seq_sorted [OF assms] gettime_seq_nsec by blast

theorem gettime_nondecreasing_witness:
  "(0 :: int) \<le> 100
   \<and> sorted_wrt ts_le (gettime_seq (spec_platform 100) [1, 1, 1] spec_machine)
   \<and> gettime_seq (spec_platform 100) [1, 1, 1] spec_machine
       = [\<lparr>tv_sec = 429496, tv_nsec = 729500000\<rparr>,
          \<lparr>tv_sec = 429496, tv_nsec = 729600000\<rparr>,
          \<lparr>tv_sec = 429496, tv_nsec = 729700000\<rparr>]"
  using gettime_nondecreasing [of 100 "[1, 1, 1]" spec_machine] spec_machine_readings
  by simp

subsection \<open>The alarm\<close>

lemma spec_tick_idle:
  assumes "al_state (oneshot (g_tickless m)) = IDLE"
  shows "al_state (oneshot (g_tickless (spec_tick P m))) = IDLE"
    and "expirations (spec_tick P m) = expirations m"
  using assms by (simp_all add: spec_tick_def set_freerun_def expirations_def)

lemma spec_tick_fire:
  assumes "al_state (oneshot (g_tickless m)) = ARMED r h arg" and "r \<le> 1"
  shows "al_state (oneshot (g_tickless (spec_tick P m))) = IDLE"
    and "expirations (spec_tick P m) = Suc (expirations m)"
  using assms
  by (cases h; simp add: spec_tick_def set_freerun_def set_oneshot_def expirations_def
        call_fnptr_def stm32_oneshot_handler_def tcllvdbg_def emit_def Let_def)+

lemma spec_tick_count:
  assumes "al_state (oneshot (g_tickless m)) = ARMED r h arg" and "1 < r"
  shows "al_state (oneshot (g_tickless (spec_tick P m))) = ARMED (r - 1) h arg"
    and "expirations (spec_tick P m) = expirations m"
  using assms
  by (simp_all add: spec_tick_def set_freerun_def set_oneshot_def expirations_def)

lemma idle_funpow:
  assumes "al_state (oneshot (g_tickless m)) = IDLE"
  shows "expirations ((spec_tick P ^^ k) m) = expirations m
         \<and> al_state (oneshot (g_tickless ((spec_tick P ^^ k) m))) = IDLE"
  using assms by (induction k) (simp_all add: spec_tick_idle)

lemma armed_funpow:
  assumes "al_state (oneshot (g_tickless m)) = ARMED r h arg"
  shows "expirations ((spec_tick P ^^ k) m)
           = expirations m + (if k < max 1 r then 0 else 1)"
  using assms
proof (induction k arbitrary: m r)
  case 0
  show ?case by simp
next
  case (Suc k)
  have unfold: "(spec_tick P ^^ Suc k) m = (spec_tick P ^^ k) (spec_tick P m)"
    by (simp add: funpow_swap1)
  show ?case
  proof (cases "r \<le> 1")
    case True
    from spec_tick_fire [OF Suc.prems True, where P = P]
      idle_funpow [where m = "spec_tick P m" and P = P and k = k] True
    show ?thesis unfolding unfold by simp
  next
    case False
    then have r: "1 < r" by simp
    from spec_tick_count [OF Suc.prems r, where P = P]
      Suc.IH [where m = "spec_tick P m" and r = "r - 1"] r
    show ?thesis unfolding unfold by auto
  qed
qed

lemma spec_start_ok:
  assumes "up_timer_start (spec_platform res) d m = (ret, m')" and "0 \<le> ret"
  shows "al_state (oneshot (g_tickless m')) = ARMED (ticks_of_timespec res d) Stm32_oneshot_handler None"
  using assms
  by (auto simp: up_timer_start_def spec_sel spec_oneshot_start_def EBUSY_def emit_def
        set_oneshot_def split: if_splits)

lemma expiry_time:
  assumes "0 < res" and "0 \<le> tv_sec d" and "0 \<le> tv_nsec d"
  shows "\<bar>int (max 1 (ticks_of_timespec res d)) * res * 1000
          - (tv_sec d * 1000000000 + tv_nsec d)\<bar> \<le> res * 1000"
proof -
  define U where "U = tv_sec d * 1000000 + tv_nsec d div 1000"
  define q where "q = U div res"
  define D where "D = tv_sec d * 1000000000 + tv_nsec d"
  have U0: "0 \<le> U" using assms by (simp add: U_def)
  have q0: "0 \<le> q" using U0 assms(1) by (simp add: q_def pos_imp_zdiv_nonneg_iff)
  have D1: "U * 1000 \<le> D" and D2: "D < U * 1000 + 1000"
    by (simp_all add: U_def D_def)
  have "q * res + U mod res = U" by (simp add: q_def)
  moreover have "0 \<le> U mod res" and "U mod res < res" using assms(1) by simp_all
  ultimately have P1: "q * res \<le> U" and P2: "U < q * res + res" by linarith+
  have n: "ticks_of_timespec res d = nat q"
    by (simp add: ticks_of_timespec_def q_def U_def)
  show ?thesis
  proof (cases "1 \<le> q")
    case True
    then have "int (max 1 (nat q)) = q" by simp
    then have "int (max 1 (ticks_of_timespec res d)) * res * 1000 = q * res * 1000"
      by (simp add: n)
    with P1 P2 D1 D2 show ?thesis unfolding D_def [symmetric] by linarith
  next
    case False
    with q0 have "q = 0" by simp
    then have "int (max 1 (ticks_of_timespec res d)) * res * 1000 = res * 1000"
      by (simp add: n)
    moreover from \<open>q = 0\<close> P2 have "U < res" by simp
    moreover have "0 \<le> D" using U0 D1 by linarith
    ultimately show ?thesis using D1 D2 unfolding D_def [symmetric] by linarith
  qed
qed

lemma spec_cancel_idle:
  assumes "al_state (oneshot (g_tickless m)) = IDLE"
  shows "up_timer_cancel (spec_platform res) ts_given m
           = (0, ts_zero, emit (Call_oneshot_cancel ts_given) (set_oneshot (oneshot (g_tickless m)) m))"
  using assms by (simp add: up_timer_cancel_def spec_sel spec_oneshot_cancel_def)

lemma spec_machine_start:
  "up_timer_start (spec_platform 100) \<lparr>tv_sec = 0, tv_nsec = 500000\<rparr> spec_machine
     = (0, snd (up_timer_start (spec_platform 100) \<lparr>tv_sec = 0, tv_nsec = 500000\<rparr> spec_machine))"
  "expirations (snd (up_timer_start (spec_platform 100) \<lparr>tv_sec = 0, tv_nsec = 500000\<rparr> spec_machine)) = 0"
  "ticks_of_timespec 100 \<lparr>tv_sec = 0, tv_nsec = 500000\<rparr> = 5"
  by (simp_all add: up_timer_start_def spec_sel spec_oneshot_start_def spec_machine_def
        emit_def set_oneshot_def expirations_def ticks_of_timespec_def)

text \<open>
  C4: \<open>up_timer_cancel\<close> with no alarm armed returns success and a remaining time of
  zero, with or without a place for the remaining time; the alarm stays idle and no expiry
  is notified.  \<open>up_timer_gettime\<close> returns success in every state \<open>m2\<close>.
\<close>

theorem cancel_idle_succeeds:
  assumes "al_state (oneshot (g_tickless m)) = IDLE"
  shows "fst (up_timer_cancel (spec_platform res) ts_given m) = 0
         \<and> fst (snd (up_timer_cancel (spec_platform res) ts_given m)) = ts_zero
         \<and> al_state (oneshot (g_tickless (snd (snd (up_timer_cancel (spec_platform res) ts_given m))))) = IDLE
         \<and> expirations (snd (snd (up_timer_cancel (spec_platform res) ts_given m))) = expirations m
         \<and> fst (up_timer_gettime (spec_platform res) m2) = 0"
  using assms
  by (simp add: spec_cancel_idle emit_def set_oneshot_def expirations_def
        up_timer_gettime_def spec_sel spec_freerun_counter_def)

theorem cancel_idle_succeeds_witness:
  "fst (up_timer_cancel (spec_platform 100) True spec_machine) = 0
   \<and> fst (snd (up_timer_cancel (spec_platform 100) True spec_machine)) = ts_zero
   \<and> expirations (snd (snd (up_timer_cancel (spec_platform 100) True spec_machine))) = 0
   \<and> fst (up_timer_gettime (spec_platform 100) spec_machine) = 0"
  using cancel_idle_succeeds [where m = spec_machine and res = 100 and ts_given = True
      and ?m2.0 = spec_machine]
  by (simp add: spec_machine_def expirations_def)

text \<open>
  C6: after a successful \<open>up_timer_start\<close> of the interval \<open>d\<close> and with no cancel,
  the number of \<open>sched_timer_expiration\<close> calls after \<open>k\<close> ticks is none before tick
  \<open>max 1 (ticks d)\<close> and exactly one from that tick on, never more; and that tick is
  within one tick of \<open>d\<close> (in nanoseconds).
\<close>

theorem start_delivers_one_expiry:
  assumes "0 < res" and "0 \<le> tv_sec d" and "0 \<le> tv_nsec d"
    and "up_timer_start (spec_platform res) d m = (ret, m')" and "0 \<le> ret"
  shows "expirations ((spec_tick (spec_platform res) ^^ k) m')
           = expirations m' + (if k < max 1 (ticks_of_timespec res d) then 0 else 1)
         \<and> \<bar>int (max 1 (ticks_of_timespec res d)) * res * 1000
              - (tv_sec d * 1000000000 + tv_nsec d)\<bar> \<le> res * 1000"
  using armed_funpow [OF spec_start_ok [OF assms(4,5)]] expiry_time [OF assms(1-3)]
  by simp

theorem start_delivers_one_expiry_witness:
  "fst (up_timer_start (spec_platform 100) \<lparr>tv_sec = 0, tv_nsec = 500000\<rparr> spec_machine) = 0
   \<and> expirations ((spec_tick (spec_platform 100) ^^ 4)
         (snd (up_timer_start (spec_platform 100) \<lparr>tv_sec = 0, tv_nsec = 500000\<rparr> spec_machine))) = 0
   \<and> expirations ((spec_tick (spec_platform 100) ^^ 5)
         (snd (up_timer_start (spec_platform 100) \<lparr>tv_sec = 0, tv_nsec = 500000\<rparr> spec_machine))) = 1
   \<and> expirations ((spec_tick (spec_platform 100) ^^ 1000)
         (snd (up_timer_start (spec_platform 100) \<lparr>tv_sec = 0, tv_nsec = 500000\<rparr> spec_machine))) = 1"
proof -
  let ?d = "\<lparr>tv_sec = 0, tv_nsec = 500000\<rparr>"
  let ?m' = "snd (up_timer_start (spec_platform 100) ?d spec_machine)"
  have e: "expirations ((spec_tick (spec_platform 100) ^^ k) ?m')
             = expirations ?m' + (if k < max 1 (ticks_of_timespec 100 ?d) then 0 else 1)" for k
    using start_delivers_one_expiry [of 100 ?d spec_machine 0 ?m' k] spec_machine_start(1)
    by simp
  from spec_machine_start(1) have "fst (up_timer_start (spec_platform 100) ?d spec_machine) = 0"
    by (metis fst_conv)
  with e [of 4] e [of 5] e [of 1000] show ?thesis
    by (simp add: spec_machine_start(2,3))
qed

text \<open>
  C7: \<open>up_timer_start\<close> makes one call of \<open>stm32_oneshot_start\<close>, with the interval
  as it is given, and returns what that call returns: it checks nothing and retries
  nothing, for every driver.  With the modelled alarm it fails exactly when the alarm is
  busy, and an interval of zero is accepted and expires at the next tick.
\<close>

theorem start_zero_and_failure:
  "trace (snd (up_timer_start P ts m)) = trace m @ [Call_oneshot_start Stm32_oneshot_handler None ts]
   \<and> fst (up_timer_start P ts m)
       = fst (stm32_oneshot_start P (oneshot (g_tickless m)) Stm32_oneshot_handler None ts)
   \<and> (fst (up_timer_start (spec_platform res) d ms) < 0 \<longleftrightarrow> al_busy (oneshot (g_tickless ms)))
   \<and> (\<not> al_busy (oneshot (g_tickless ms)) \<longrightarrow>
        fst (up_timer_start (spec_platform res) ts_zero ms) = 0
        \<and> expirations (spec_tick (spec_platform res) (snd (up_timer_start (spec_platform res) ts_zero ms)))
            = expirations ms + 1)"
proof -
  have a: "trace (snd (up_timer_start P ts m)) = trace m @ [Call_oneshot_start Stm32_oneshot_handler None ts]"
    by (simp add: up_timer_start_def emit_def set_oneshot_def split: prod.splits)
  have b: "fst (up_timer_start P ts m)
       = fst (stm32_oneshot_start P (oneshot (g_tickless m)) Stm32_oneshot_handler None ts)"
    by (simp add: up_timer_start_def split: prod.splits)
  have c: "fst (up_timer_start (spec_platform res) d ms) < 0 \<longleftrightarrow> al_busy (oneshot (g_tickless ms))"
    by (simp add: up_timer_start_def spec_sel spec_oneshot_start_def EBUSY_def)
  have d: "fst (up_timer_start (spec_platform res) ts_zero ms) = 0
        \<and> expirations (spec_tick (spec_platform res) (snd (up_timer_start (spec_platform res) ts_zero ms)))
            = expirations ms + 1" if nb: "\<not> al_busy (oneshot (g_tickless ms))"
  proof -
    obtain ret m' where s: "up_timer_start (spec_platform res) ts_zero ms = (ret, m')" by force
    with nb have r: "ret = 0" and e: "expirations m' = expirations ms"
      by (auto simp: up_timer_start_def spec_sel spec_oneshot_start_def emit_def
            set_oneshot_def expirations_def)
    from spec_start_ok [OF s] r
    have "al_state (oneshot (g_tickless m')) = ARMED (ticks_of_timespec res ts_zero) Stm32_oneshot_handler None"
      by simp
    moreover have "ticks_of_timespec res ts_zero = 0"
      by (simp add: ticks_of_timespec_def ts_zero_def)
    ultimately have "expirations (spec_tick (spec_platform res) m') = Suc (expirations m')"
      using spec_tick_fire(2) [where m = m' and r = 0] by simp
    with s r e show ?thesis by simp
  qed
  from a b c d show ?thesis by blast
qed

theorem start_zero_and_failure_witness:
  "fst (up_timer_start (spec_platform 100) ts_zero spec_machine) = 0
   \<and> expirations (spec_tick (spec_platform 100)
         (snd (up_timer_start (spec_platform 100) ts_zero spec_machine))) = 1
   \<and> fst (up_timer_start (spec_platform 100) ts_zero
         (spec_machine\<lparr>g_tickless := (g_tickless spec_machine)\<lparr>oneshot :=
            \<lparr>al_state = IDLE, al_busy = True\<rparr>\<rparr>\<rparr>)) < 0"
  using start_zero_and_failure [where res = 100 and ms = spec_machine and d = ts_zero
      and P = echo_platform and ts = ts_zero and m = "echo_machine 0 0"]
    start_zero_and_failure [where res = 100 and d = ts_zero
      and P = echo_platform and ts = ts_zero and m = "echo_machine 0 0"
      and ms = "spec_machine\<lparr>g_tickless := (g_tickless spec_machine)\<lparr>oneshot :=
            \<lparr>al_state = IDLE, al_busy = True\<rparr>\<rparr>\<rparr>"]
  by (simp add: spec_machine_def expirations_def)

subsection \<open>Cancel racing with the deadline\<close>















end
